theory Spec2Isabelle
  imports Main "HOL-Library.Word"
begin

section \<open>Monitored-item services of open62541pp (src/services/MonitoredItem.cpp)\<close>

text \<open>
  The file wraps the monitored-item service set of the native stack (open62541) for the two
  connection roles. Each service function builds a native request, calls the stack, raises
  \<open>BadStatus\<close> on a bad status and updates the wrapper's own state: the caller's
  \<open>MonitoringParameters\<close> (passed by reference) and the connection's registry of
  monitored-item contexts. Four static functions are the callbacks the stack invokes.

  Conventions of the embedding:
  \<^item> \<open>uint32_t\<close> and \<open>UA_StatusCode\<close> are 32-bit words; a \<open>double\<close> is only ever
    copied, so it is carried as its 64-bit pattern;
  \<^item> a function that throws returns \<open>Inl\<close> of the error; state reached through a
    reference (\<open>Client&\<close>, \<open>Server&\<close>, \<open>MonitoringParameters&\<close>) is returned next
    to the outcome on both paths, so that what a failed call leaves behind is visible;
  \<^item> a call into the native stack is a function parameter that maps what the stack is
    given to its response; callbacks the stack makes are the dispatcher functions below;
  \<^item> a \<open>std::function\<close> is \<open>None\<close> when empty and \<open>Some f\<close> when it holds a target
    \<open>f\<close>; calling the target is a parameter that gives the state the callback leaves,
    so a user callback may do anything to it, the registry included, and whether the
    callback returned or threw; no callback of the file catches an exception, so one thrown
    by a user callback leaves the callback of the file at the call;
  \<^item> the context pointer \<open>void*\<close> a callback receives is \<open>None\<close> for \<open>nullptr\<close> and
    \<open>Some\<close> of the context object it points to otherwise.
\<close>

subsection \<open>Status codes and failures\<close>

type_synonym uint32 = "32 word"
type_synonym UA_StatusCode = "32 word"
type_synonym UA_Double = "64 word"

definition UA_STATUSCODE_GOOD :: UA_StatusCode where
  "UA_STATUSCODE_GOOD = 0x00000000"

definition UA_STATUSCODE_BADUNEXPECTEDERROR :: UA_StatusCode where
  "UA_STATUSCODE_BADUNEXPECTEDERROR = 0x80010000"

definition UA_STATUSCODE_BADMONITOREDITEMIDINVALID :: UA_StatusCode where
  "UA_STATUSCODE_BADMONITOREDITEMIDINVALID = 0x80420000"

datatype error = BadStatus UA_StatusCode

text \<open>
  Modelled from the spec: \<open>detail::throwOnBadStatus\<close> is declared in ErrorHandling.h, which is
  not among the sources. It raises a failure carrying the status when the status is bad and
  returns otherwise. Which codes count as bad is the parameter \<open>isBad\<close>.
\<close>

definition throwOnBadStatus :: "(UA_StatusCode \<Rightarrow> bool) \<Rightarrow> UA_StatusCode \<Rightarrow> error + unit" where
  "throwOnBadStatus isBad code = (if isBad code then Inl (BadStatus code) else Inr ())"

text \<open>The test every scenario below uses for \<open>isBad\<close>: any code other than Good.\<close>

definition notGood :: "UA_StatusCode \<Rightarrow> bool" where
  "notGood code = (code \<noteq> UA_STATUSCODE_GOOD)"

subsection \<open>Wrapper and native data\<close>

datatype MonitoringMode = Disabled | Sampling | Reporting

datatype TimestampsToReturn = Timestamps_Source | Timestamps_Server | Timestamps_Both | Timestamps_Neither

text \<open>
  Modelled from the spec: \<open>MonitoringParameters\<close> is declared in services/MonitoredItem.h,
  which is not among the sources. It has the fields the services read and write:
  timestamps to return, sampling interval, queue size and the discard-oldest flag.
\<close>

record MonitoringParameters =
  timestamps :: TimestampsToReturn
  samplingInterval :: UA_Double
  queueSize :: uint32
  discardOldest :: bool

text \<open>
  \<open>UA_EventFilter\<close>: select clauses (each a type definition, a browse path and an attribute)
  and the elements of the where clause. \<open>UA_EventFilter eventFilter{}\<close> has neither.
\<close>

record UA_SimpleAttributeOperand =
  typeDefinitionId :: nat
  browsePath :: "(nat \<times> string) list"
  attributeId :: uint32

record UA_EventFilter =
  selectClauses :: "UA_SimpleAttributeOperand list"
  whereClause :: "nat list"

definition UA_EventFilter_init :: UA_EventFilter where
  "UA_EventFilter_init = \<lparr>selectClauses = [], whereClause = []\<rparr>"

text \<open>
  \<open>UA_ExtensionObject\<close> as the services use it: without body (the zero-initialised request),
  or decoded with type \<open>UA_TYPES_EVENTFILTER\<close> and the filter as its data.
\<close>

datatype UA_ExtensionObject =
  UA_EXTENSIONOBJECT_ENCODED_NOBODY
  | UA_EXTENSIONOBJECT_DECODED_EVENTFILTER UA_EventFilter

record UA_MonitoringParameters =
  req_samplingInterval :: UA_Double
  req_filter :: UA_ExtensionObject
  req_queueSize :: uint32
  req_discardOldest :: bool

record 'r UA_MonitoredItemCreateRequest =
  create_itemToMonitor :: 'r
  create_monitoringMode :: MonitoringMode
  create_requestedParameters :: UA_MonitoringParameters

record UA_MonitoredItemCreateResult =
  statusCode :: UA_StatusCode
  monitoredItemId :: uint32
  revisedSamplingInterval :: UA_Double
  revisedQueueSize :: uint32

record UA_MonitoredItemModifyRequest =
  modify_monitoredItemId :: uint32
  modify_requestedParameters :: UA_MonitoringParameters

record UA_ModifyMonitoredItemsRequest =
  modify_subscriptionId :: uint32
  modify_timestampsToReturn :: TimestampsToReturn
  itemsToModify :: "UA_MonitoredItemModifyRequest list"

record UA_MonitoredItemModifyResult =
  modify_statusCode :: UA_StatusCode
  modify_revisedSamplingInterval :: UA_Double
  modify_revisedQueueSize :: uint32

record UA_ModifyMonitoredItemsResponse =
  modify_serviceResult :: UA_StatusCode
  modify_results :: "UA_MonitoredItemModifyResult list"

record UA_SetTriggeringRequest =
  subscriptionId :: uint32
  triggeringItemId :: uint32
  linksToAdd :: "uint32 list"
  linksToRemove :: "uint32 list"

record UA_SetTriggeringResponse =
  serviceResult :: UA_StatusCode
  addResults :: "UA_StatusCode list"
  removeResults :: "UA_StatusCode list"

subsection \<open>Contexts and registries\<close>

text \<open>
  Modelled from the spec: ClientContext.h and ServerContext.h are not among the sources.
  \<open>ClientContext::MonitoredItem\<close> and \<open>ServerContext::MonitoredItem\<close> hold the item to
  monitor (\<open>'r\<close> stands for \<open>ReadValueId\<close>) and the stored callbacks (\<open>'f\<close> stands for the
  target of a \<open>std::function\<close>): data change, event and delete for the client, data change
  for the server. These are the fields the services set and the callbacks read. The
  registries are the \<open>monitoredItems\<close> maps of the two contexts, keyed by (subscription id,
  monitored item id) for the client and by the monitored item id for the server; a
  registry owns its contexts.
\<close>

record ('r, 'f) ClientMonitoredItem =
  itemToMonitor :: 'r
  dataChangeCallback :: "'f option"
  eventCallback :: "'f option"
  deleteCallback :: "'f option"

record ('r, 'f) ServerMonitoredItem =
  server_itemToMonitor :: 'r
  server_dataChangeCallback :: "'f option"

record ('r, 'f) ClientContext =
  monitoredItems :: "uint32 \<times> uint32 \<rightharpoonup> ('r, 'f) ClientMonitoredItem"

record ('r, 'f) ServerContext =
  server_monitoredItems :: "uint32 \<rightharpoonup> ('r, 'f) ServerMonitoredItem"

subsection \<open>setTriggering\<close>

text \<open>The two loops over the per-link results: the first bad status is thrown.\<close>

fun throwOnBadStatus_each :: "(UA_StatusCode \<Rightarrow> bool) \<Rightarrow> UA_StatusCode list \<Rightarrow> error + unit" where
  "throwOnBadStatus_each isBad [] = Inr ()"
| "throwOnBadStatus_each isBad (code # codes) =
     (case throwOnBadStatus isBad code of
        Inl e \<Rightarrow> Inl e
      | Inr _ \<Rightarrow> throwOnBadStatus_each isBad codes)"

definition setTriggering ::
  "(UA_StatusCode \<Rightarrow> bool) \<Rightarrow> (UA_SetTriggeringRequest \<Rightarrow> UA_SetTriggeringResponse) \<Rightarrow>
   uint32 \<Rightarrow> uint32 \<Rightarrow> uint32 list \<Rightarrow> uint32 list \<Rightarrow> error + unit" where
  "setTriggering isBad UA_Client_MonitoredItems_setTriggering
     subscriptionId' triggeringItemId' linksToAdd' linksToRemove' =
   (let request = \<lparr>subscriptionId = subscriptionId', triggeringItemId = triggeringItemId',
                    linksToAdd = linksToAdd', linksToRemove = linksToRemove'\<rparr>;
        response = UA_Client_MonitoredItems_setTriggering request
    in case throwOnBadStatus isBad (serviceResult response) of
         Inl e \<Rightarrow> Inl e
       | Inr _ \<Rightarrow>
          (case throwOnBadStatus_each isBad (addResults response) of
             Inl e \<Rightarrow> Inl e
           | Inr _ \<Rightarrow> throwOnBadStatus_each isBad (removeResults response)))"

subsection \<open>Callbacks invoked by the native stack\<close>

text \<open>How a call of a user callback ends: it returns, or it throws an exception \<open>'x\<close>.\<close>

datatype 'x outcome = Returned | Thrown 'x

text \<open>
  \<open>dataChangeNotificationCallback\<close> for \<open>UA_Server\<close>. The state \<open>server\<close> is whatever the
  user callback may act on; \<open>call\<close> runs the target of the stored \<open>std::function\<close> with
  the arguments the source passes (subscription id \<open>0U\<close>, the monitored item id, the value)
  and gives the outcome of the call and the state it leaves. The call is the last
  statement, so its outcome is the outcome of the dispatcher.
\<close>

definition dataChangeNotificationCallback_server ::
  "('f \<Rightarrow> uint32 \<Rightarrow> uint32 \<Rightarrow> 'v \<Rightarrow> 'w \<Rightarrow> 'x outcome \<times> 'w) \<Rightarrow> 'w \<Rightarrow> uint32 \<Rightarrow>
   ('r, 'f) ServerMonitoredItem option \<Rightarrow> 'v \<Rightarrow> 'x outcome \<times> 'w" where
  "dataChangeNotificationCallback_server call server monitoredItemId' monitoredItemContext val =
   (case monitoredItemContext of
      None \<Rightarrow> (Returned, server)
    | Some monitoredItem \<Rightarrow>
       (case server_dataChangeCallback monitoredItem of
          None \<Rightarrow> (Returned, server)
        | Some f \<Rightarrow> call f 0 monitoredItemId' val server))"

text \<open>\<open>dataChangeNotificationCallback\<close> for \<open>UA_Client\<close>.\<close>

definition dataChangeNotificationCallback_client ::
  "('f \<Rightarrow> uint32 \<Rightarrow> uint32 \<Rightarrow> 'v \<Rightarrow> 'w \<Rightarrow> 'x outcome \<times> 'w) \<Rightarrow> 'w \<Rightarrow> uint32 \<Rightarrow> uint32 \<Rightarrow>
   ('r, 'f) ClientMonitoredItem option \<Rightarrow> 'v \<Rightarrow> 'x outcome \<times> 'w" where
  "dataChangeNotificationCallback_client call client subId monId monContext val =
   (case monContext of
      None \<Rightarrow> (Returned, client)
    | Some monitoredItem \<Rightarrow>
       (case dataChangeCallback monitoredItem of
          None \<Rightarrow> (Returned, client)
        | Some f \<Rightarrow> call f subId monId val client))"

text \<open>
  \<open>eventNotificationCallback\<close>. The array \<open>eventFields\<close> of \<open>nEventFields\<close> variants is the
  list \<open>eventFields\<close>; the vector built from it has the same elements.
\<close>

definition eventNotificationCallback ::
  "('f \<Rightarrow> uint32 \<Rightarrow> uint32 \<Rightarrow> 'e list \<Rightarrow> 'w \<Rightarrow> 'x outcome \<times> 'w) \<Rightarrow> 'w \<Rightarrow> uint32 \<Rightarrow> uint32 \<Rightarrow>
   ('r, 'f) ClientMonitoredItem option \<Rightarrow> 'e list \<Rightarrow> 'x outcome \<times> 'w" where
  "eventNotificationCallback call client subId monId monContext eventFields =
   (case monContext of
      None \<Rightarrow> (Returned, client)
    | Some monitoredItem \<Rightarrow>
       (case eventCallback monitoredItem of
          None \<Rightarrow> (Returned, client)
        | Some f \<Rightarrow> (let eventFieldsVec = eventFields in call f subId monId eventFieldsVec client)))"

text \<open>\<open>monitoredItems.erase(key)\<close> on the client's registry: removes the entry if there is one.\<close>

definition erase ::
  "uint32 \<times> uint32 \<Rightarrow> ('r, 'f, 'z) ClientContext_scheme \<Rightarrow> ('r, 'f, 'z) ClientContext_scheme" where
  "erase key clientContext = clientContext\<lparr>monitoredItems := (monitoredItems clientContext)(key := None)\<rparr>"

text \<open>
  \<open>deleteMonitoredItemCallback\<close>: the stored delete callback runs first, if the context is
  not null and the callback is set. When that part has returned, the registry entry is
  erased. When the delete callback throws, the exception leaves the function at the call
  (there is no handler), and the two statements that erase the entry are not reached.
\<close>

definition deleteMonitoredItemCallback ::
  "('f \<Rightarrow> uint32 \<Rightarrow> uint32 \<Rightarrow> ('r, 'f, 'z) ClientContext_scheme \<Rightarrow>
      'x outcome \<times> ('r, 'f, 'z) ClientContext_scheme) \<Rightarrow>
   ('r, 'f, 'z) ClientContext_scheme \<Rightarrow> uint32 \<Rightarrow> uint32 \<Rightarrow>
   ('r, 'f) ClientMonitoredItem option \<Rightarrow> 'x outcome \<times> ('r, 'f, 'z) ClientContext_scheme" where
  "deleteMonitoredItemCallback call client subId monId monContext =
   (case
      (case monContext of
         None \<Rightarrow> (Returned, client)
       | Some monitoredItem \<Rightarrow>
          (case deleteCallback monitoredItem of
             None \<Rightarrow> (Returned, client)
           | Some f \<Rightarrow> call f subId monId client))
    of
      (Thrown x, client1) \<Rightarrow> (Thrown x, client1)
    | (Returned, client1) \<Rightarrow> (Returned, erase (subId, monId) client1))"

subsection \<open>Creating monitored items\<close>

text \<open>
  The request of the two data-change creations: the zero-initialised request with the item,
  the mode and three of the caller's parameters; its filter stays without body.
\<close>

definition createMonitoredItemDataChange_request ::
  "'r \<Rightarrow> MonitoringMode \<Rightarrow> MonitoringParameters \<Rightarrow> 'r UA_MonitoredItemCreateRequest" where
  "createMonitoredItemDataChange_request itemToMonitor' monitoringMode parameters =
   \<lparr>create_itemToMonitor = itemToMonitor',
    create_monitoringMode = monitoringMode,
    create_requestedParameters =
      \<lparr>req_samplingInterval = samplingInterval parameters,
       req_filter = UA_EXTENSIONOBJECT_ENCODED_NOBODY,
       req_queueSize = queueSize parameters,
       req_discardOldest = discardOldest parameters\<rparr>\<rparr>"

text \<open>
  \<open>createMonitoredItemDataChange\<close> for \<open>Client\<close>. The result is the outcome (the new
  monitored item id, or the failure), the client's context and the caller's parameters
  as the call leaves them.
\<close>

definition createMonitoredItemDataChange_client ::
  "(UA_StatusCode \<Rightarrow> bool) \<Rightarrow>
   (uint32 \<Rightarrow> TimestampsToReturn \<Rightarrow> 'r UA_MonitoredItemCreateRequest \<Rightarrow>
      ('r, 'f) ClientMonitoredItem \<Rightarrow> UA_MonitoredItemCreateResult) \<Rightarrow>
   ('r, 'f, 'z) ClientContext_scheme \<Rightarrow> uint32 \<Rightarrow> 'r \<Rightarrow> MonitoringMode \<Rightarrow> MonitoringParameters \<Rightarrow>
   'f option \<Rightarrow> 'f option \<Rightarrow>
   (error + uint32) \<times> ('r, 'f, 'z) ClientContext_scheme \<times> MonitoringParameters" where
  "createMonitoredItemDataChange_client isBad UA_Client_MonitoredItems_createDataChange
     client subscriptionId' itemToMonitor' monitoringMode parameters dataChangeCallback' deleteCallback' =
   (let request = createMonitoredItemDataChange_request itemToMonitor' monitoringMode parameters;
        monitoredItemContext =
          \<lparr>itemToMonitor = itemToMonitor', dataChangeCallback = dataChangeCallback',
           eventCallback = None, deleteCallback = deleteCallback'\<rparr>;
        result = UA_Client_MonitoredItems_createDataChange
                   subscriptionId' (timestamps parameters) request monitoredItemContext
    in case throwOnBadStatus isBad (statusCode result) of
         Inl e \<Rightarrow> (Inl e, client, parameters)
       | Inr _ \<Rightarrow>
          (Inr (monitoredItemId result),
           client\<lparr>monitoredItems :=
             (monitoredItems client)((subscriptionId', monitoredItemId result) \<mapsto> monitoredItemContext)\<rparr>,
           parameters\<lparr>samplingInterval := revisedSamplingInterval result,
                      queueSize := revisedQueueSize result\<rparr>))"

text \<open>\<open>createMonitoredItemDataChange\<close> for \<open>Server\<close>.\<close>

definition createMonitoredItemDataChange_server ::
  "(UA_StatusCode \<Rightarrow> bool) \<Rightarrow>
   (TimestampsToReturn \<Rightarrow> 'r UA_MonitoredItemCreateRequest \<Rightarrow>
      ('r, 'f) ServerMonitoredItem \<Rightarrow> UA_MonitoredItemCreateResult) \<Rightarrow>
   ('r, 'f, 'z) ServerContext_scheme \<Rightarrow> 'r \<Rightarrow> MonitoringMode \<Rightarrow> MonitoringParameters \<Rightarrow>
   'f option \<Rightarrow>
   (error + uint32) \<times> ('r, 'f, 'z) ServerContext_scheme \<times> MonitoringParameters" where
  "createMonitoredItemDataChange_server isBad UA_Server_createDataChangeMonitoredItem
     server itemToMonitor' monitoringMode parameters dataChangeCallback' =
   (let request = createMonitoredItemDataChange_request itemToMonitor' monitoringMode parameters;
        monitoredItemContext =
          \<lparr>server_itemToMonitor = itemToMonitor', server_dataChangeCallback = dataChangeCallback'\<rparr>;
        result = UA_Server_createDataChangeMonitoredItem
                   (timestamps parameters) request monitoredItemContext
    in case throwOnBadStatus isBad (statusCode result) of
         Inl e \<Rightarrow> (Inl e, server, parameters)
       | Inr _ \<Rightarrow>
          (Inr (monitoredItemId result),
           server\<lparr>server_monitoredItems :=
             (server_monitoredItems server)(monitoredItemId result \<mapsto> monitoredItemContext)\<rparr>,
           parameters\<lparr>samplingInterval := revisedSamplingInterval result,
                      queueSize := revisedQueueSize result\<rparr>))"

text \<open>
  The request of \<open>createMonitoredItemEvent\<close>. The function has no filter among its
  arguments (the source notes \<open>TODO: add filter to MonitoringParameters\<close>): the filter of
  the request is the local \<open>UA_EventFilter eventFilter{}\<close>, decoded.
\<close>

definition createMonitoredItemEvent_request ::
  "'r \<Rightarrow> MonitoringMode \<Rightarrow> MonitoringParameters \<Rightarrow> 'r UA_MonitoredItemCreateRequest" where
  "createMonitoredItemEvent_request itemToMonitor' monitoringMode parameters =
   (let eventFilter = UA_EventFilter_init
    in \<lparr>create_itemToMonitor = itemToMonitor',
        create_monitoringMode = monitoringMode,
        create_requestedParameters =
          \<lparr>req_samplingInterval = samplingInterval parameters,
           req_filter = UA_EXTENSIONOBJECT_DECODED_EVENTFILTER eventFilter,
           req_queueSize = queueSize parameters,
           req_discardOldest = discardOldest parameters\<rparr>\<rparr>)"

definition createMonitoredItemEvent ::
  "(UA_StatusCode \<Rightarrow> bool) \<Rightarrow>
   (uint32 \<Rightarrow> TimestampsToReturn \<Rightarrow> 'r UA_MonitoredItemCreateRequest \<Rightarrow>
      ('r, 'f) ClientMonitoredItem \<Rightarrow> UA_MonitoredItemCreateResult) \<Rightarrow>
   ('r, 'f, 'z) ClientContext_scheme \<Rightarrow> uint32 \<Rightarrow> 'r \<Rightarrow> MonitoringMode \<Rightarrow> MonitoringParameters \<Rightarrow>
   'f option \<Rightarrow> 'f option \<Rightarrow>
   (error + uint32) \<times> ('r, 'f, 'z) ClientContext_scheme \<times> MonitoringParameters" where
  "createMonitoredItemEvent isBad UA_Client_MonitoredItems_createEvent
     client subscriptionId' itemToMonitor' monitoringMode parameters eventCallback' deleteCallback' =
   (let request = createMonitoredItemEvent_request itemToMonitor' monitoringMode parameters;
        monitoredItemContext =
          \<lparr>itemToMonitor = itemToMonitor', dataChangeCallback = None,
           eventCallback = eventCallback', deleteCallback = deleteCallback'\<rparr>;
        result = UA_Client_MonitoredItems_createEvent
                   subscriptionId' (timestamps parameters) request monitoredItemContext
    in case throwOnBadStatus isBad (statusCode result) of
         Inl e \<Rightarrow> (Inl e, client, parameters)
       | Inr _ \<Rightarrow>
          (Inr (monitoredItemId result),
           client\<lparr>monitoredItems :=
             (monitoredItems client)((subscriptionId', monitoredItemId result) \<mapsto> monitoredItemContext)\<rparr>,
           parameters\<lparr>samplingInterval := revisedSamplingInterval result,
                      queueSize := revisedQueueSize result\<rparr>))"

subsection \<open>Modifying and deleting monitored items\<close>

definition modifyMonitoredItem ::
  "(UA_StatusCode \<Rightarrow> bool) \<Rightarrow>
   (UA_ModifyMonitoredItemsRequest \<Rightarrow> UA_ModifyMonitoredItemsResponse) \<Rightarrow>
   uint32 \<Rightarrow> uint32 \<Rightarrow> MonitoringParameters \<Rightarrow> (error + unit) \<times> MonitoringParameters" where
  "modifyMonitoredItem isBad UA_Client_MonitoredItems_modify subscriptionId' monitoredItemId' parameters =
   (let itemToModify =
          \<lparr>modify_monitoredItemId = monitoredItemId',
           modify_requestedParameters =
             \<lparr>req_samplingInterval = samplingInterval parameters,
              req_filter = UA_EXTENSIONOBJECT_ENCODED_NOBODY,
              req_queueSize = queueSize parameters,
              req_discardOldest = discardOldest parameters\<rparr>\<rparr>;
        request =
          \<lparr>modify_subscriptionId = subscriptionId',
           modify_timestampsToReturn = timestamps parameters,
           itemsToModify = [itemToModify]\<rparr>;
        response = UA_Client_MonitoredItems_modify request
    in case throwOnBadStatus isBad (modify_serviceResult response) of
         Inl e \<Rightarrow> (Inl e, parameters)
       | Inr _ \<Rightarrow>
          (if length (modify_results response) \<noteq> 1
           then (Inl (BadStatus UA_STATUSCODE_BADUNEXPECTEDERROR), parameters)
           else
            (let result = hd (modify_results response)
             in case throwOnBadStatus isBad (modify_statusCode result) of
                  Inl e \<Rightarrow> (Inl e, parameters)
                | Inr _ \<Rightarrow>
                   (Inr (),
                    parameters\<lparr>samplingInterval := modify_revisedSamplingInterval result,
                               queueSize := modify_revisedQueueSize result\<rparr>))))"

text \<open>
  \<open>deleteMonitoredItem\<close> for \<open>Client\<close>: the status of the stack is checked and nothing
  else is done; the client's context is returned as it was given.
\<close>

definition deleteMonitoredItem_client ::
  "(UA_StatusCode \<Rightarrow> bool) \<Rightarrow> (uint32 \<Rightarrow> uint32 \<Rightarrow> UA_StatusCode) \<Rightarrow>
   ('r, 'f, 'z) ClientContext_scheme \<Rightarrow> uint32 \<Rightarrow> uint32 \<Rightarrow>
   (error + unit) \<times> ('r, 'f, 'z) ClientContext_scheme" where
  "deleteMonitoredItem_client isBad UA_Client_MonitoredItems_deleteSingle client subscriptionId' monitoredItemId' =
   (let status = UA_Client_MonitoredItems_deleteSingle subscriptionId' monitoredItemId'
    in (throwOnBadStatus isBad status, client))"

text \<open>\<open>deleteMonitoredItem\<close> for \<open>Server\<close>: the entry is erased once the status has passed.\<close>

definition deleteMonitoredItem_server ::
  "(UA_StatusCode \<Rightarrow> bool) \<Rightarrow> (uint32 \<Rightarrow> UA_StatusCode) \<Rightarrow>
   ('r, 'f, 'z) ServerContext_scheme \<Rightarrow> uint32 \<Rightarrow>
   (error + unit) \<times> ('r, 'f, 'z) ServerContext_scheme" where
  "deleteMonitoredItem_server isBad UA_Server_deleteMonitoredItem server monitoredItemId' =
   (let status = UA_Server_deleteMonitoredItem monitoredItemId'
    in case throwOnBadStatus isBad status of
         Inl e \<Rightarrow> (Inl e, server)
       | Inr _ \<Rightarrow>
          (Inr (),
           server\<lparr>server_monitoredItems := (server_monitoredItems server)(monitoredItemId' := None)\<rparr>))"

subsection \<open>An observing client for concrete scenarios\<close>

text \<open>
  A client context extended by a log. A callback run by \<open>logCall\<close> appends its target, the
  two identifiers it was called with and whether the registry held an entry for them at
  that moment, and returns. A callback run by \<open>logThenThrow\<close> does the same and then
  throws.
\<close>

record ('r, 'f) LoggingClient = "('r, 'f) ClientContext" +
  calls :: "('f \<times> uint32 \<times> uint32 \<times> bool) list"

definition logCall ::
  "'f \<Rightarrow> uint32 \<Rightarrow> uint32 \<Rightarrow> ('r, 'f) LoggingClient \<Rightarrow> string outcome \<times> ('r, 'f) LoggingClient" where
  "logCall f subId monId client =
   (Returned,
    client\<lparr>calls := calls client @ [(f, subId, monId, monitoredItems client (subId, monId) \<noteq> None)]\<rparr>)"

definition logThenThrow ::
  "'f \<Rightarrow> uint32 \<Rightarrow> uint32 \<Rightarrow> ('r, 'f) LoggingClient \<Rightarrow> string outcome \<times> ('r, 'f) LoggingClient" where
  "logThenThrow f subId monId client = (Thrown ''callback failed'', snd (logCall f subId monId client))"

text \<open>
  The scenarios: callbacks that log (the value and the event fields are natural numbers
  here), a context with all three callbacks and one with none, a client without items and
  one with the item (1, 5), a server with item 5, the parameters a caller requests, a stack
  that accepts a creation and revises the queue size to 1 while granting the sampling
  interval as requested, a stack's rejection, the same revision for a modification, and
  the event filter of the test "Monitor event".
\<close>

definition logDataChange ::
  "'f \<Rightarrow> uint32 \<Rightarrow> uint32 \<Rightarrow> nat \<Rightarrow> ('r, 'f) LoggingClient \<Rightarrow> string outcome \<times> ('r, 'f) LoggingClient" where
  "logDataChange f subId monId val = logCall f subId monId"

definition logEvent ::
  "'f \<Rightarrow> uint32 \<Rightarrow> uint32 \<Rightarrow> nat list \<Rightarrow> ('r, 'f) LoggingClient \<Rightarrow>
   string outcome \<times> ('r, 'f) LoggingClient" where
  "logEvent f subId monId eventFields = logCall f subId monId"

definition itemWithCallbacks :: "(nat, nat) ClientMonitoredItem" where
  "itemWithCallbacks =
   \<lparr>itemToMonitor = 2258, dataChangeCallback = Some 1, eventCallback = Some 2, deleteCallback = Some 3\<rparr>"

definition itemWithoutCallbacks :: "(nat, nat) ClientMonitoredItem" where
  "itemWithoutCallbacks =
   \<lparr>itemToMonitor = 2258, dataChangeCallback = None, eventCallback = None, deleteCallback = None\<rparr>"

definition noItems :: "(nat, nat) LoggingClient" where
  "noItems = \<lparr>monitoredItems = Map.empty, calls = []\<rparr>"

definition oneItem :: "(nat, nat) LoggingClient" where
  "oneItem = \<lparr>monitoredItems = [(1, 5) \<mapsto> itemWithCallbacks], calls = []\<rparr>"

definition serverWithItem :: "(nat, nat) ServerContext" where
  "serverWithItem =
   \<lparr>server_monitoredItems = [5 \<mapsto> \<lparr>server_itemToMonitor = 2258, server_dataChangeCallback = Some 1\<rparr>]\<rparr>"

definition requestedParameters :: MonitoringParameters where
  "requestedParameters =
   \<lparr>timestamps = Timestamps_Both, samplingInterval = 250, queueSize = 10, discardOldest = True\<rparr>"

definition revise :: "'r UA_MonitoredItemCreateRequest \<Rightarrow> UA_MonitoredItemCreateResult" where
  "revise request =
   \<lparr>statusCode = UA_STATUSCODE_GOOD, monitoredItemId = 5,
    revisedSamplingInterval = req_samplingInterval (create_requestedParameters request),
    revisedQueueSize = 1\<rparr>"

definition reject :: UA_MonitoredItemCreateResult where
  "reject =
   \<lparr>statusCode = UA_STATUSCODE_BADUNEXPECTEDERROR, monitoredItemId = 0,
    revisedSamplingInterval = 0, revisedQueueSize = 0\<rparr>"

definition reviseModify :: "UA_ModifyMonitoredItemsRequest \<Rightarrow> UA_ModifyMonitoredItemsResponse" where
  "reviseModify request =
   \<lparr>modify_serviceResult = UA_STATUSCODE_GOOD,
    modify_results =
      map (\<lambda>item. \<lparr>modify_statusCode = UA_STATUSCODE_GOOD,
                    modify_revisedSamplingInterval = req_samplingInterval (modify_requestedParameters item),
                    modify_revisedQueueSize = 1\<rparr>) (itemsToModify request)\<rparr>"

definition eventFilterOfTest :: UA_EventFilter where
  "eventFilterOfTest =
   \<lparr>selectClauses =
      [\<lparr>typeDefinitionId = 2041, browsePath = [(0, ''Time'')], attributeId = 13\<rparr>,
       \<lparr>typeDefinitionId = 2041, browsePath = [(0, ''Severity'')], attributeId = 13\<rparr>,
       \<lparr>typeDefinitionId = 2041, browsePath = [(0, ''Message'')], attributeId = 13\<rparr>],
    whereClause = []\<rparr>"

text \<open>
  Two responses of the stack to a \<open>setTriggering\<close> request with two links to add and one
  to remove: in the first only the first link is invalid, in the second all three are.
\<close>

definition firstLinkInvalid :: "UA_SetTriggeringRequest \<Rightarrow> UA_SetTriggeringResponse" where
  "firstLinkInvalid request =
   \<lparr>serviceResult = UA_STATUSCODE_GOOD,
    addResults = [UA_STATUSCODE_BADMONITOREDITEMIDINVALID, UA_STATUSCODE_GOOD],
    removeResults = [UA_STATUSCODE_GOOD]\<rparr>"

definition allLinksInvalid :: "UA_SetTriggeringRequest \<Rightarrow> UA_SetTriggeringResponse" where
  "allLinksInvalid request =
   \<lparr>serviceResult = UA_STATUSCODE_GOOD,
    addResults = [UA_STATUSCODE_BADMONITOREDITEMIDINVALID, UA_STATUSCODE_BADMONITOREDITEMIDINVALID],
    removeResults = [UA_STATUSCODE_BADMONITOREDITEMIDINVALID]\<rparr>"




section \<open>Properties\<close>

lemmas scenario_defs = logDataChange_def logEvent_def logCall_def logThenThrow_def itemWithCallbacks_def
  itemWithoutCallbacks_def noItems_def oneItem_def serverWithItem_def requestedParameters_def
  revise_def reject_def reviseModify_def notGood_def UA_STATUSCODE_GOOD_def
  UA_STATUSCODE_BADUNEXPECTEDERROR_def UA_STATUSCODE_BADMONITOREDITEMIDINVALID_def

subsection \<open>setTriggering reports one status\<close>

lemma throwOnBadStatus_each_find:
  "throwOnBadStatus_each isBad codes =
   (case find isBad codes of None \<Rightarrow> Inr () | Some code \<Rightarrow> Inl (BadStatus code))"
  by (induction codes) (simp_all add: throwOnBadStatus_def)

lemma find_append_case:
  "find P (xs @ ys) = (case find P xs of None \<Rightarrow> find P ys | Some x \<Rightarrow> Some x)"
  by (induction xs) simp_all

text \<open>
  C1, as the spec states it: \<open>setTriggering\<close> with N links to add and M links to remove
  returns N+M per-link statuses, only the invalid links marked failed. The function returns
  nothing and throws the first bad status it meets, so its outcome does not tell which
  links failed: with two links to add and one to remove, the response in which only the
  first link is invalid and the response in which all three are invalid end in the same
  single failure.
\<close>

theorem setTriggering_one_status_counterexample:
  "setTriggering notGood firstLinkInvalid 1 10 [11, 12] [13] =
     Inl (BadStatus UA_STATUSCODE_BADMONITOREDITEMIDINVALID)
   \<and> setTriggering notGood allLinksInvalid 1 10 [11, 12] [13] =
     Inl (BadStatus UA_STATUSCODE_BADMONITOREDITEMIDINVALID)
   \<and> addResults (firstLinkInvalid \<lparr>subscriptionId = 1, triggeringItemId = 10,
                                    linksToAdd = [11, 12], linksToRemove = [13]\<rparr>)
     \<noteq> addResults (allLinksInvalid \<lparr>subscriptionId = 1, triggeringItemId = 10,
                                    linksToAdd = [11, 12], linksToRemove = [13]\<rparr>)"
  by (simp add: setTriggering_def throwOnBadStatus_def notGood_def firstLinkInvalid_def
      allLinksInvalid_def UA_STATUSCODE_GOOD_def UA_STATUSCODE_BADMONITOREDITEMIDINVALID_def)

text \<open>
  C1, amended: \<open>setTriggering\<close> returns no per-link statuses. It succeeds when neither the
  service result nor any add or remove result is bad; otherwise it fails with one failure,
  which carries the first bad status in the order service result, add results, remove
  results.
\<close>

theorem setTriggering_first_bad_status:
  "setTriggering isBad stack subId trigId adds rems =
   (let response = stack \<lparr>subscriptionId = subId, triggeringItemId = trigId,
                          linksToAdd = adds, linksToRemove = rems\<rparr>
    in case find isBad (serviceResult response # addResults response @ removeResults response) of
         None \<Rightarrow> Inr ()
       | Some code \<Rightarrow> Inl (BadStatus code))"
  by (simp add: setTriggering_def Let_def throwOnBadStatus_each_find find_append_case
      throwOnBadStatus_def split: option.splits)

subsection \<open>Revised parameters\<close>

text \<open>
  C3: after a successful \<open>createMonitoredItemDataChange\<close> (client or server),
  \<open>createMonitoredItemEvent\<close> or \<open>modifyMonitoredItem\<close>, the caller's parameters hold
  the revised sampling interval and the revised queue size of the stack's result. The
  assignment is unconditional, so it also happens when the revised values equal the
  requested ones.
\<close>

theorem revised_parameters_written_back:
  "(fst (createMonitoredItemDataChange_client isBad cstack client subId item mode params onDataChange onDelete) = Inr monId \<longrightarrow>
     (let result = cstack subId (timestamps params) (createMonitoredItemDataChange_request item mode params)
                     \<lparr>itemToMonitor = item, dataChangeCallback = onDataChange,
                      eventCallback = None, deleteCallback = onDelete\<rparr>;
          params' = snd (snd (createMonitoredItemDataChange_client isBad cstack client subId item mode params onDataChange onDelete))
      in samplingInterval params' = revisedSamplingInterval result
         \<and> queueSize params' = revisedQueueSize result))
   \<and> (fst (createMonitoredItemDataChange_server isBad sstack server item mode params onDataChange) = Inr monId \<longrightarrow>
     (let result = sstack (timestamps params) (createMonitoredItemDataChange_request item mode params)
                     \<lparr>server_itemToMonitor = item, server_dataChangeCallback = onDataChange\<rparr>;
          params' = snd (snd (createMonitoredItemDataChange_server isBad sstack server item mode params onDataChange))
      in samplingInterval params' = revisedSamplingInterval result
         \<and> queueSize params' = revisedQueueSize result))
   \<and> (fst (createMonitoredItemEvent isBad estack client subId item mode params onEvent onDelete) = Inr monId \<longrightarrow>
     (let result = estack subId (timestamps params) (createMonitoredItemEvent_request item mode params)
                     \<lparr>itemToMonitor = item, dataChangeCallback = None,
                      eventCallback = onEvent, deleteCallback = onDelete\<rparr>;
          params' = snd (snd (createMonitoredItemEvent isBad estack client subId item mode params onEvent onDelete))
      in samplingInterval params' = revisedSamplingInterval result
         \<and> queueSize params' = revisedQueueSize result))
   \<and> (fst (modifyMonitoredItem isBad mstack subId itemId params) = Inr () \<longrightarrow>
     (let response = mstack
            \<lparr>modify_subscriptionId = subId, modify_timestampsToReturn = timestamps params,
             itemsToModify =
               [\<lparr>modify_monitoredItemId = itemId,
                 modify_requestedParameters =
                   \<lparr>req_samplingInterval = samplingInterval params,
                    req_filter = UA_EXTENSIONOBJECT_ENCODED_NOBODY,
                    req_queueSize = queueSize params,
                    req_discardOldest = discardOldest params\<rparr>\<rparr>]\<rparr>;
          params' = snd (modifyMonitoredItem isBad mstack subId itemId params)
      in length (modify_results response) = 1
         \<and> samplingInterval params' = modify_revisedSamplingInterval (hd (modify_results response))
         \<and> queueSize params' = modify_revisedQueueSize (hd (modify_results response))))"
proof (intro conjI impI)
  assume "fst (createMonitoredItemDataChange_client isBad cstack client subId item mode params onDataChange onDelete) = Inr monId"
  then show "let result = cstack subId (timestamps params) (createMonitoredItemDataChange_request item mode params)
                     \<lparr>itemToMonitor = item, dataChangeCallback = onDataChange,
                      eventCallback = None, deleteCallback = onDelete\<rparr>;
          params' = snd (snd (createMonitoredItemDataChange_client isBad cstack client subId item mode params onDataChange onDelete))
      in samplingInterval params' = revisedSamplingInterval result
         \<and> queueSize params' = revisedQueueSize result"
    by (simp add: createMonitoredItemDataChange_client_def Let_def split: sum.splits)
next
  assume "fst (createMonitoredItemDataChange_server isBad sstack server item mode params onDataChange) = Inr monId"
  then show "let result = sstack (timestamps params) (createMonitoredItemDataChange_request item mode params)
                     \<lparr>server_itemToMonitor = item, server_dataChangeCallback = onDataChange\<rparr>;
          params' = snd (snd (createMonitoredItemDataChange_server isBad sstack server item mode params onDataChange))
      in samplingInterval params' = revisedSamplingInterval result
         \<and> queueSize params' = revisedQueueSize result"
    by (simp add: createMonitoredItemDataChange_server_def Let_def split: sum.splits)
next
  assume "fst (createMonitoredItemEvent isBad estack client subId item mode params onEvent onDelete) = Inr monId"
  then show "let result = estack subId (timestamps params) (createMonitoredItemEvent_request item mode params)
                     \<lparr>itemToMonitor = item, dataChangeCallback = None,
                      eventCallback = onEvent, deleteCallback = onDelete\<rparr>;
          params' = snd (snd (createMonitoredItemEvent isBad estack client subId item mode params onEvent onDelete))
      in samplingInterval params' = revisedSamplingInterval result
         \<and> queueSize params' = revisedQueueSize result"
    by (simp add: createMonitoredItemEvent_def Let_def split: sum.splits)
next
  assume "fst (modifyMonitoredItem isBad mstack subId itemId params) = Inr ()"
  then show "let response = mstack
            \<lparr>modify_subscriptionId = subId, modify_timestampsToReturn = timestamps params,
             itemsToModify =
               [\<lparr>modify_monitoredItemId = itemId,
                 modify_requestedParameters =
                   \<lparr>req_samplingInterval = samplingInterval params,
                    req_filter = UA_EXTENSIONOBJECT_ENCODED_NOBODY,
                    req_queueSize = queueSize params,
                    req_discardOldest = discardOldest params\<rparr>\<rparr>]\<rparr>;
          params' = snd (modifyMonitoredItem isBad mstack subId itemId params)
      in length (modify_results response) = 1
         \<and> samplingInterval params' = modify_revisedSamplingInterval (hd (modify_results response))
         \<and> queueSize params' = modify_revisedQueueSize (hd (modify_results response))"
    by (simp add: modifyMonitoredItem_def Let_def split: sum.splits if_splits)
qed

theorem revised_parameters_written_back_witness:
  "fst (createMonitoredItemDataChange_client notGood (\<lambda>subId ts request context. revise request)
          oneItem 1 2258 Reporting requestedParameters (Some 1) (Some 3)) = Inr 5
   \<and> samplingInterval (snd (snd (createMonitoredItemDataChange_client notGood
          (\<lambda>subId ts request context. revise request)
          oneItem 1 2258 Reporting requestedParameters (Some 1) (Some 3)))) = 250
   \<and> queueSize (snd (snd (createMonitoredItemDataChange_client notGood
          (\<lambda>subId ts request context. revise request)
          oneItem 1 2258 Reporting requestedParameters (Some 1) (Some 3)))) = 1
   \<and> fst (createMonitoredItemDataChange_server notGood (\<lambda>ts request context. revise request)
          serverWithItem 2258 Reporting requestedParameters (Some 1)) = Inr 5
   \<and> samplingInterval (snd (snd (createMonitoredItemDataChange_server notGood
          (\<lambda>ts request context. revise request)
          serverWithItem 2258 Reporting requestedParameters (Some 1)))) = 250
   \<and> queueSize (snd (snd (createMonitoredItemDataChange_server notGood
          (\<lambda>ts request context. revise request)
          serverWithItem 2258 Reporting requestedParameters (Some 1)))) = 1
   \<and> fst (createMonitoredItemEvent notGood (\<lambda>subId ts request context. revise request)
          oneItem 1 2258 Reporting requestedParameters (Some 2) (Some 3)) = Inr 5
   \<and> samplingInterval (snd (snd (createMonitoredItemEvent notGood
          (\<lambda>subId ts request context. revise request)
          oneItem 1 2258 Reporting requestedParameters (Some 2) (Some 3)))) = 250
   \<and> queueSize (snd (snd (createMonitoredItemEvent notGood
          (\<lambda>subId ts request context. revise request)
          oneItem 1 2258 Reporting requestedParameters (Some 2) (Some 3)))) = 1
   \<and> fst (modifyMonitoredItem notGood reviseModify 1 5 requestedParameters) = Inr ()
   \<and> samplingInterval (snd (modifyMonitoredItem notGood reviseModify 1 5 requestedParameters)) = 250
   \<and> queueSize (snd (modifyMonitoredItem notGood reviseModify 1 5 requestedParameters)) = 1"
proof -
  have c: "fst (createMonitoredItemDataChange_client notGood (\<lambda>subId ts request context. revise request)
          oneItem 1 2258 Reporting requestedParameters (Some 1) (Some 3)) = Inr 5"
    by (simp add: createMonitoredItemDataChange_client_def throwOnBadStatus_def scenario_defs)
  have s: "fst (createMonitoredItemDataChange_server notGood (\<lambda>ts request context. revise request)
          serverWithItem 2258 Reporting requestedParameters (Some 1)) = Inr 5"
    by (simp add: createMonitoredItemDataChange_server_def throwOnBadStatus_def scenario_defs)
  have e: "fst (createMonitoredItemEvent notGood (\<lambda>subId ts request context. revise request)
          oneItem 1 2258 Reporting requestedParameters (Some 2) (Some 3)) = Inr 5"
    by (simp add: createMonitoredItemEvent_def throwOnBadStatus_def scenario_defs)
  have m: "fst (modifyMonitoredItem notGood reviseModify 1 5 requestedParameters) = Inr ()"
    by (simp add: modifyMonitoredItem_def throwOnBadStatus_def scenario_defs)
  show ?thesis
    using c s e m
      revised_parameters_written_back [where isBad = notGood
        and cstack = "\<lambda>subId ts request context. revise request"
        and client = oneItem and subId = 1 and item = 2258 and mode = Reporting
        and params = requestedParameters and onDataChange = "Some 1" and onDelete = "Some 3"
        and monId = 5 and sstack = "\<lambda>ts request context. revise request"
        and server = serverWithItem
        and estack = "\<lambda>subId ts request context. revise request" and onEvent = "Some 2"
        and mstack = reviseModify and itemId = 5]
    by (simp add: Let_def scenario_defs createMonitoredItemDataChange_request_def
        createMonitoredItemEvent_request_def)
qed

subsection \<open>Rejected creations\<close>

text \<open>
  C4: when the stack answers a creation (data change for the client, data change for the
  server, event) with a bad status, the call fails with a failure carrying that status,
  and it commits nothing: the registry and the caller's parameters are returned as they
  were given. The status is thrown before the parameters are written and before the
  context is inserted.
\<close>

theorem rejected_creation_commits_nothing:
  "(let result = cstack subId (timestamps params) (createMonitoredItemDataChange_request item mode params)
                   \<lparr>itemToMonitor = item, dataChangeCallback = onDataChange,
                    eventCallback = None, deleteCallback = onDelete\<rparr>
    in isBad (statusCode result) \<longrightarrow>
       createMonitoredItemDataChange_client isBad cstack client subId item mode params onDataChange onDelete =
       (Inl (BadStatus (statusCode result)), client, params))
   \<and> (let result = sstack (timestamps params) (createMonitoredItemDataChange_request item mode params)
                   \<lparr>server_itemToMonitor = item, server_dataChangeCallback = onDataChange\<rparr>
    in isBad (statusCode result) \<longrightarrow>
       createMonitoredItemDataChange_server isBad sstack server item mode params onDataChange =
       (Inl (BadStatus (statusCode result)), server, params))
   \<and> (let result = estack subId (timestamps params) (createMonitoredItemEvent_request item mode params)
                   \<lparr>itemToMonitor = item, dataChangeCallback = None,
                    eventCallback = onEvent, deleteCallback = onDelete\<rparr>
    in isBad (statusCode result) \<longrightarrow>
       createMonitoredItemEvent isBad estack client subId item mode params onEvent onDelete =
       (Inl (BadStatus (statusCode result)), client, params))"
  by (simp add: createMonitoredItemDataChange_client_def createMonitoredItemDataChange_server_def
      createMonitoredItemEvent_def Let_def throwOnBadStatus_def)

theorem rejected_creation_commits_nothing_witness:
  "notGood (statusCode reject)
   \<and> createMonitoredItemDataChange_client notGood (\<lambda>subId ts request context. reject)
        oneItem 1 2258 Reporting requestedParameters (Some 1) (Some 3) =
      (Inl (BadStatus UA_STATUSCODE_BADUNEXPECTEDERROR), oneItem, requestedParameters)
   \<and> createMonitoredItemDataChange_server notGood (\<lambda>ts request context. reject)
        serverWithItem 2258 Reporting requestedParameters (Some 1) =
      (Inl (BadStatus UA_STATUSCODE_BADUNEXPECTEDERROR), serverWithItem, requestedParameters)
   \<and> createMonitoredItemEvent notGood (\<lambda>subId ts request context. reject)
        oneItem 1 2258 Reporting requestedParameters (Some 2) (Some 3) =
      (Inl (BadStatus UA_STATUSCODE_BADUNEXPECTEDERROR), oneItem, requestedParameters)"
proof -
  have bad: "notGood (statusCode reject)"
    by (simp add: scenario_defs)
  have code: "statusCode reject = UA_STATUSCODE_BADUNEXPECTEDERROR"
    by (simp add: reject_def)
  show ?thesis
    using bad code
      rejected_creation_commits_nothing [where isBad = notGood
        and cstack = "\<lambda>subId ts request context. reject"
        and sstack = "\<lambda>ts request context. reject"
        and estack = "\<lambda>subId ts request context. reject"
        and client = oneItem and server = serverWithItem and subId = 1 and item = 2258
        and mode = Reporting and params = requestedParameters
        and onDataChange = "Some 1" and onEvent = "Some 2" and onDelete = "Some 3"]
    by (simp add: Let_def)
qed

subsection \<open>The delete confirmation\<close>

text \<open>
  C5: in \<open>deleteMonitoredItemCallback\<close>, with a context that is not null and whose delete
  callback is set, the callback runs on the client's state as the dispatcher received it,
  and the entry for (subId, monId) is erased from the state the callback leaves when it
  returns. The callback therefore runs strictly before the erasure: when it runs, the
  registry still holds whatever it held for that key, the context included. When the
  callback throws, it has run on that same state and nothing is erased.
\<close>

theorem deleteCallback_runs_before_erase:
  "deleteCallback monitoredItem = Some f \<Longrightarrow>
   deleteMonitoredItemCallback call client subId monId (Some monitoredItem) =
   (case call f subId monId client of
      (Thrown x, client1) \<Rightarrow> (Thrown x, client1)
    | (Returned, client1) \<Rightarrow> (Returned, erase (subId, monId) client1))"
  by (simp add: deleteMonitoredItemCallback_def)

theorem deleteCallback_runs_before_erase_witness:
  "deleteCallback itemWithCallbacks = Some 3
   \<and> monitoredItems oneItem (1, 5) = Some itemWithCallbacks
   \<and> fst (deleteMonitoredItemCallback logCall oneItem 1 5 (Some itemWithCallbacks)) = Returned
   \<and> calls (snd (deleteMonitoredItemCallback logCall oneItem 1 5 (Some itemWithCallbacks))) =
      [(3, 1, 5, True)]
   \<and> monitoredItems (snd (deleteMonitoredItemCallback logCall oneItem 1 5 (Some itemWithCallbacks)))
        (1, 5) = None"
proof -
  have stored: "deleteCallback itemWithCallbacks = Some 3"
    by (simp add: itemWithCallbacks_def)
  show ?thesis
    using stored deleteCallback_runs_before_erase [OF stored, of logCall oneItem 1 5]
    by (simp add: erase_def logCall_def oneItem_def)
qed

text \<open>
  C9, as stated: \<open>deleteMonitoredItemCallback\<close> erases the entry for (subId, monId) on
  every invocation, so that no entry outlives its delete confirmation. The user's delete
  callback is called without a handler around it, so when it throws, the exception leaves
  the dispatcher before the erase: here the registry holds the item (1, 5), its delete
  callback logs and throws, and the entry is still there after the confirmation.
\<close>

theorem throwing_deleteCallback_counterexample:
  "monitoredItems oneItem (1, 5) = Some itemWithCallbacks
   \<and> deleteCallback itemWithCallbacks = Some 3
   \<and> fst (deleteMonitoredItemCallback logThenThrow oneItem 1 5 (Some itemWithCallbacks)) =
      Thrown ''callback failed''
   \<and> calls (snd (deleteMonitoredItemCallback logThenThrow oneItem 1 5 (Some itemWithCallbacks))) =
      [(3, 1, 5, True)]
   \<and> monitoredItems (snd (deleteMonitoredItemCallback logThenThrow oneItem 1 5 (Some itemWithCallbacks)))
        (1, 5) = Some itemWithCallbacks"
  by (simp add: deleteMonitoredItemCallback_def scenario_defs)

text \<open>
  C9, amended: \<open>deleteMonitoredItemCallback\<close> erases the entry for (subId, monId) on every
  invocation that returns, whatever the context address is and whatever a delete callback
  that returned did to the registry. With a null context it runs no callback, erases the
  entry and returns. Nothing is said of an invocation whose delete callback throws.
\<close>

theorem deleteMonitoredItemCallback_erases_on_return:
  "(fst (deleteMonitoredItemCallback call client subId monId monContext) = Returned \<longrightarrow>
      monitoredItems (snd (deleteMonitoredItemCallback call client subId monId monContext))
        (subId, monId) = None)
   \<and> deleteMonitoredItemCallback call client subId monId None = (Returned, erase (subId, monId) client)"
proof (intro conjI impI)
  assume "fst (deleteMonitoredItemCallback call client subId monId monContext) = Returned"
  then show "monitoredItems (snd (deleteMonitoredItemCallback call client subId monId monContext))
        (subId, monId) = None"
    by (auto simp: deleteMonitoredItemCallback_def erase_def
        split: option.splits prod.splits outcome.splits)
next
  show "deleteMonitoredItemCallback call client subId monId None = (Returned, erase (subId, monId) client)"
    by (simp add: deleteMonitoredItemCallback_def)
qed

theorem deleteMonitoredItemCallback_erases_on_return_witness:
  "fst (deleteMonitoredItemCallback logCall oneItem 1 5 (Some itemWithCallbacks)) = Returned
   \<and> monitoredItems (snd (deleteMonitoredItemCallback logCall oneItem 1 5 (Some itemWithCallbacks)))
        (1, 5) = None
   \<and> fst (deleteMonitoredItemCallback logCall oneItem 1 5 None) = Returned
   \<and> monitoredItems (snd (deleteMonitoredItemCallback logCall oneItem 1 5 None)) (1, 5) = None
   \<and> calls (snd (deleteMonitoredItemCallback logCall oneItem 1 5 None)) = []"
proof -
  have returned: "fst (deleteMonitoredItemCallback logCall oneItem 1 5 (Some itemWithCallbacks)) = Returned"
    by (simp add: deleteMonitoredItemCallback_def scenario_defs)
  show ?thesis
    using returned
      deleteMonitoredItemCallback_erases_on_return [where call = logCall and client = oneItem
        and subId = 1 and monId = 5 and monContext = "Some itemWithCallbacks"]
    by (simp add: erase_def oneItem_def)
qed

subsection \<open>Deleting monitored items\<close>

text \<open>
  C6: a successful \<open>deleteMonitoredItem\<close> on the server erases the entry of the monitored
  item within the call and changes nothing else. \<open>deleteMonitoredItem\<close> on the client
  leaves the client's context as it was, so the entry may still be there when the call
  returns; the entry is gone once the delete confirmation of the stack has run and
  returned.
\<close>

theorem deleteMonitoredItem_registry_effect:
  "(fst (deleteMonitoredItem_server isBad sstack server itemId) = Inr () \<longrightarrow>
      snd (deleteMonitoredItem_server isBad sstack server itemId) =
      server\<lparr>server_monitoredItems := (server_monitoredItems server)(itemId := None)\<rparr>)
   \<and> snd (deleteMonitoredItem_client isBad cstack client subId monId) = client
   \<and> (fst (deleteMonitoredItemCallback call
              (snd (deleteMonitoredItem_client isBad cstack client subId monId)) subId monId monContext) =
       Returned \<longrightarrow>
      monitoredItems
        (snd (deleteMonitoredItemCallback call
                (snd (deleteMonitoredItem_client isBad cstack client subId monId)) subId monId monContext))
        (subId, monId) = None)"
proof (intro conjI impI)
  assume "fst (deleteMonitoredItem_server isBad sstack server itemId) = Inr ()"
  then show "snd (deleteMonitoredItem_server isBad sstack server itemId) =
      server\<lparr>server_monitoredItems := (server_monitoredItems server)(itemId := None)\<rparr>"
    by (simp add: deleteMonitoredItem_server_def Let_def split: sum.splits)
next
  show "snd (deleteMonitoredItem_client isBad cstack client subId monId) = client"
    by (simp add: deleteMonitoredItem_client_def)
next
  assume "fst (deleteMonitoredItemCallback call
              (snd (deleteMonitoredItem_client isBad cstack client subId monId)) subId monId monContext) =
       Returned"
  then show "monitoredItems
        (snd (deleteMonitoredItemCallback call
                (snd (deleteMonitoredItem_client isBad cstack client subId monId)) subId monId monContext))
        (subId, monId) = None"
    by (auto simp: deleteMonitoredItemCallback_def erase_def
        split: option.splits prod.splits outcome.splits)
qed

theorem deleteMonitoredItem_registry_effect_witness:
  "fst (deleteMonitoredItem_server notGood (\<lambda>monId. UA_STATUSCODE_GOOD) serverWithItem 5) = Inr ()
   \<and> server_monitoredItems serverWithItem 5 \<noteq> None
   \<and> server_monitoredItems
        (snd (deleteMonitoredItem_server notGood (\<lambda>monId. UA_STATUSCODE_GOOD) serverWithItem 5)) 5 = None
   \<and> fst (deleteMonitoredItem_client notGood (\<lambda>subId monId. UA_STATUSCODE_GOOD) oneItem 1 5) = Inr ()
   \<and> monitoredItems
        (snd (deleteMonitoredItem_client notGood (\<lambda>subId monId. UA_STATUSCODE_GOOD) oneItem 1 5)) (1, 5) =
      Some itemWithCallbacks
   \<and> fst (deleteMonitoredItemCallback logCall
             (snd (deleteMonitoredItem_client notGood (\<lambda>subId monId. UA_STATUSCODE_GOOD) oneItem 1 5))
             1 5 (Some itemWithCallbacks)) = Returned
   \<and> monitoredItems
        (snd (deleteMonitoredItemCallback logCall
                (snd (deleteMonitoredItem_client notGood (\<lambda>subId monId. UA_STATUSCODE_GOOD) oneItem 1 5))
                1 5 (Some itemWithCallbacks)))
        (1, 5) = None"
proof -
  have ok: "fst (deleteMonitoredItem_server notGood (\<lambda>monId. UA_STATUSCODE_GOOD) serverWithItem 5) = Inr ()"
    by (simp add: deleteMonitoredItem_server_def throwOnBadStatus_def notGood_def)
  have ok': "fst (deleteMonitoredItem_client notGood (\<lambda>subId monId. UA_STATUSCODE_GOOD) oneItem 1 5) = Inr ()"
    by (simp add: deleteMonitoredItem_client_def throwOnBadStatus_def notGood_def)
  have returned: "fst (deleteMonitoredItemCallback logCall
             (snd (deleteMonitoredItem_client notGood (\<lambda>subId monId. UA_STATUSCODE_GOOD) oneItem 1 5))
             1 5 (Some itemWithCallbacks)) = Returned"
    by (simp add: deleteMonitoredItem_client_def deleteMonitoredItemCallback_def scenario_defs)
  show ?thesis
    using ok ok' returned
      deleteMonitoredItem_registry_effect [where isBad = notGood
        and sstack = "\<lambda>monId. UA_STATUSCODE_GOOD" and server = serverWithItem and itemId = 5
        and cstack = "\<lambda>subId monId. UA_STATUSCODE_GOOD" and client = oneItem
        and subId = 1 and monId = 5 and call = logCall and monContext = "Some itemWithCallbacks"]
    by (simp add: deleteMonitoredItem_server_def deleteMonitoredItem_client_def
        deleteMonitoredItemCallback_def erase_def Let_def throwOnBadStatus_def scenario_defs)
qed

text \<open>
  C8: deleting a monitored item a second time. On the server, after a successful deletion
  the entry is gone; the second call then fails with the status of the stack when that
  status is bad (\<open>BadMonitoredItemIdInvalid\<close> from open62541) and succeeds otherwise, and in
  both cases the registry is as the first deletion left it: erasing an absent key changes
  nothing. On the client, the second call fails or succeeds with the status of the stack
  and leaves the registry as the delete confirmation of the first deletion left it; once
  that confirmation has returned the entry is gone, and a further confirmation for the
  same key changes nothing either.
\<close>

theorem second_deletion_changes_nothing:
  "(fst (deleteMonitoredItem_server isBad sfirst server itemId) = Inr () \<longrightarrow>
      (let server1 = snd (deleteMonitoredItem_server isBad sfirst server itemId)
       in server_monitoredItems server1 itemId = None
          \<and> deleteMonitoredItem_server isBad ssecond server1 itemId =
            (if isBad (ssecond itemId) then Inl (BadStatus (ssecond itemId)) else Inr (), server1)))
   \<and> (let confirmed = deleteMonitoredItemCallback call
                         (snd (deleteMonitoredItem_client isBad cfirst client subId monId))
                         subId monId monContext;
           client1 = snd confirmed
       in deleteMonitoredItem_client isBad csecond client1 subId monId =
            (if isBad (csecond subId monId) then Inl (BadStatus (csecond subId monId)) else Inr (), client1)
          \<and> (fst confirmed = Returned \<longrightarrow>
               monitoredItems client1 (subId, monId) = None
               \<and> deleteMonitoredItemCallback call' client1 subId monId None = (Returned, client1)))"
proof (intro conjI impI)
  assume succeeded: "fst (deleteMonitoredItem_server isBad sfirst server itemId) = Inr ()"
  have good: "\<not> isBad (sfirst itemId)"
  proof
    assume "isBad (sfirst itemId)"
    then have "fst (deleteMonitoredItem_server isBad sfirst server itemId) = Inl (BadStatus (sfirst itemId))"
      by (simp add: deleteMonitoredItem_server_def throwOnBadStatus_def)
    with succeeded show False by simp
  qed
  show "let server1 = snd (deleteMonitoredItem_server isBad sfirst server itemId)
       in server_monitoredItems server1 itemId = None
          \<and> deleteMonitoredItem_server isBad ssecond server1 itemId =
            (if isBad (ssecond itemId) then Inl (BadStatus (ssecond itemId)) else Inr (), server1)"
    using good by (simp add: Let_def deleteMonitoredItem_server_def throwOnBadStatus_def)
next
  show "let confirmed = deleteMonitoredItemCallback call
                         (snd (deleteMonitoredItem_client isBad cfirst client subId monId))
                         subId monId monContext;
           client1 = snd confirmed
       in deleteMonitoredItem_client isBad csecond client1 subId monId =
            (if isBad (csecond subId monId) then Inl (BadStatus (csecond subId monId)) else Inr (), client1)
          \<and> (fst confirmed = Returned \<longrightarrow>
               monitoredItems client1 (subId, monId) = None
               \<and> deleteMonitoredItemCallback call' client1 subId monId None = (Returned, client1))"
    by (auto simp: Let_def deleteMonitoredItem_client_def deleteMonitoredItemCallback_def erase_def
        throwOnBadStatus_def split: option.splits prod.splits outcome.splits)
qed

theorem second_deletion_changes_nothing_witness:
  "fst (deleteMonitoredItem_server notGood (\<lambda>monId. UA_STATUSCODE_GOOD) serverWithItem 5) = Inr ()
   \<and> deleteMonitoredItem_server notGood (\<lambda>monId. UA_STATUSCODE_BADMONITOREDITEMIDINVALID)
        (snd (deleteMonitoredItem_server notGood (\<lambda>monId. UA_STATUSCODE_GOOD) serverWithItem 5)) 5 =
      (Inl (BadStatus UA_STATUSCODE_BADMONITOREDITEMIDINVALID),
       snd (deleteMonitoredItem_server notGood (\<lambda>monId. UA_STATUSCODE_GOOD) serverWithItem 5))
   \<and> fst (deleteMonitoredItemCallback logCall
             (snd (deleteMonitoredItem_client notGood (\<lambda>subId monId. UA_STATUSCODE_GOOD) oneItem 1 5))
             1 5 (Some itemWithCallbacks)) = Returned
   \<and> monitoredItems
        (snd (deleteMonitoredItemCallback logCall
                (snd (deleteMonitoredItem_client notGood (\<lambda>subId monId. UA_STATUSCODE_GOOD) oneItem 1 5))
                1 5 (Some itemWithCallbacks))) (1, 5) = None
   \<and> deleteMonitoredItem_client notGood (\<lambda>subId monId. UA_STATUSCODE_BADMONITOREDITEMIDINVALID)
        (snd (deleteMonitoredItemCallback logCall
                (snd (deleteMonitoredItem_client notGood (\<lambda>subId monId. UA_STATUSCODE_GOOD) oneItem 1 5))
                1 5 (Some itemWithCallbacks))) 1 5 =
      (Inl (BadStatus UA_STATUSCODE_BADMONITOREDITEMIDINVALID),
       snd (deleteMonitoredItemCallback logCall
              (snd (deleteMonitoredItem_client notGood (\<lambda>subId monId. UA_STATUSCODE_GOOD) oneItem 1 5))
              1 5 (Some itemWithCallbacks)))"
proof -
  have ok: "fst (deleteMonitoredItem_server notGood (\<lambda>monId. UA_STATUSCODE_GOOD) serverWithItem 5) = Inr ()"
    by (simp add: deleteMonitoredItem_server_def throwOnBadStatus_def notGood_def)
  have bad: "notGood UA_STATUSCODE_BADMONITOREDITEMIDINVALID"
    by (simp add: scenario_defs)
  have returned: "fst (deleteMonitoredItemCallback logCall
             (snd (deleteMonitoredItem_client notGood (\<lambda>subId monId. UA_STATUSCODE_GOOD) oneItem 1 5))
             1 5 (Some itemWithCallbacks)) = Returned"
    by (simp add: deleteMonitoredItem_client_def deleteMonitoredItemCallback_def scenario_defs)
  show ?thesis
    using ok bad returned
      second_deletion_changes_nothing [where isBad = notGood
        and sfirst = "\<lambda>monId. UA_STATUSCODE_GOOD"
        and ssecond = "\<lambda>monId. UA_STATUSCODE_BADMONITOREDITEMIDINVALID"
        and server = serverWithItem and itemId = 5
        and cfirst = "\<lambda>subId monId. UA_STATUSCODE_GOOD"
        and csecond = "\<lambda>subId monId. UA_STATUSCODE_BADMONITOREDITEMIDINVALID"
        and client = oneItem and subId = 1 and monId = 5 and call = logCall
        and monContext = "Some itemWithCallbacks" and call' = logCall]
    by (simp add: Let_def)
qed

subsection \<open>Notifications\<close>

text \<open>
  C7, as the spec states it: a notification with a null context address, or whose
  identifier cannot be resolved in the registry, is dropped without a callback being
  invoked. The dispatchers never look an identifier up: with a context that is not null
  they call its callback even when the registry has no entry for the identifier. Here the
  registry is empty, and the data-change and the event callback both run (the last
  component of a log entry says that the registry held no entry at the call).
\<close>

theorem unresolved_identifier_counterexample:
  "monitoredItems noItems (1, 5) = None
   \<and> calls (snd (dataChangeNotificationCallback_client logDataChange noItems 1 5
                   (Some itemWithCallbacks) 42)) =
      [(1, 1, 5, False)]
   \<and> calls (snd (eventNotificationCallback logEvent noItems 1 5 (Some itemWithCallbacks) [7, 8])) =
      [(2, 1, 5, False)]
   \<and> dataChangeNotificationCallback_client logDataChange noItems 1 5 (Some itemWithCallbacks) 42 \<noteq>
      (Returned, noItems)"
  by (simp add: dataChangeNotificationCallback_client_def eventNotificationCallback_def scenario_defs)

text \<open>
  C7, amended: a data-change or event notification with a null context address is dropped:
  the dispatcher returns, with the state unchanged, without invoking a callback and
  without an error. The registry is not consulted: with a context that is not null and
  whose callback is set, the callback is invoked with the identifiers and the payload of
  the notification, whatever the registry holds, and the dispatcher ends as the callback
  does.
\<close>

theorem null_context_dropped:
  "dataChangeNotificationCallback_server scall server monId None val = (Returned, server)
   \<and> dataChangeNotificationCallback_client ccall client subId monId None val = (Returned, client)
   \<and> eventNotificationCallback ecall client subId monId None eventFields = (Returned, client)
   \<and> dataChangeNotificationCallback_server scall server monId
        (Some \<lparr>server_itemToMonitor = item, server_dataChangeCallback = Some f\<rparr>) val =
      scall f 0 monId val server
   \<and> dataChangeNotificationCallback_client ccall client subId monId
        (Some \<lparr>itemToMonitor = item, dataChangeCallback = Some f,
               eventCallback = onEvent, deleteCallback = onDelete\<rparr>) val =
      ccall f subId monId val client
   \<and> eventNotificationCallback ecall client subId monId
        (Some \<lparr>itemToMonitor = item, dataChangeCallback = onDataChange,
               eventCallback = Some f, deleteCallback = onDelete\<rparr>) eventFields =
      ecall f subId monId eventFields client"
  by (simp add: dataChangeNotificationCallback_server_def dataChangeNotificationCallback_client_def
      eventNotificationCallback_def)



subsection \<open>The event filter\<close>

lemma createMonitoredItemEvent_request_filter:
  "(createMonitoredItemEvent_request item mode params)
     \<lparr>create_requestedParameters :=
        (create_requestedParameters (createMonitoredItemEvent_request item mode params))
          \<lparr>req_filter := UA_EXTENSIONOBJECT_DECODED_EVENTFILTER UA_EventFilter_init\<rparr>\<rparr> =
   createMonitoredItemEvent_request item mode params"
  by (simp add: createMonitoredItemEvent_request_def)

text \<open>
  C2: the spec has the caller's event filter attached to the request of
  \<open>createMonitoredItemEvent\<close>. The function takes no filter: for all its arguments the
  request carries the empty filter \<open>UA_EventFilter{}\<close>, which is not the filter of the test
  "Monitor event", and the stack is handed no other filter: the call gives the same
  result when the filter of the request is overwritten by the empty one on its way to
  the stack.
\<close>

theorem createMonitoredItemEvent_sends_empty_filter:
  "req_filter (create_requestedParameters (createMonitoredItemEvent_request item mode params)) =
     UA_EXTENSIONOBJECT_DECODED_EVENTFILTER UA_EventFilter_init
   \<and> req_filter (create_requestedParameters (createMonitoredItemEvent_request item mode params)) \<noteq>
     UA_EXTENSIONOBJECT_DECODED_EVENTFILTER eventFilterOfTest
   \<and> createMonitoredItemEvent isBad stack client subId item mode params onEvent onDelete =
     createMonitoredItemEvent isBad
       (\<lambda>subId' ts request. stack subId' ts
          (request\<lparr>create_requestedParameters :=
             (create_requestedParameters request)
               \<lparr>req_filter := UA_EXTENSIONOBJECT_DECODED_EVENTFILTER UA_EventFilter_init\<rparr>\<rparr>))
       client subId item mode params onEvent onDelete"
proof (intro conjI)
  show "req_filter (create_requestedParameters (createMonitoredItemEvent_request item mode params)) =
     UA_EXTENSIONOBJECT_DECODED_EVENTFILTER UA_EventFilter_init"
    by (simp add: createMonitoredItemEvent_request_def)
  show "req_filter (create_requestedParameters (createMonitoredItemEvent_request item mode params)) \<noteq>
     UA_EXTENSIONOBJECT_DECODED_EVENTFILTER eventFilterOfTest"
    by (simp add: createMonitoredItemEvent_request_def UA_EventFilter_init_def eventFilterOfTest_def)
  show "createMonitoredItemEvent isBad stack client subId item mode params onEvent onDelete =
     createMonitoredItemEvent isBad
       (\<lambda>subId' ts request. stack subId' ts
          (request\<lparr>create_requestedParameters :=
             (create_requestedParameters request)
               \<lparr>req_filter := UA_EXTENSIONOBJECT_DECODED_EVENTFILTER UA_EventFilter_init\<rparr>\<rparr>))
       client subId item mode params onEvent onDelete"
    by (simp only: createMonitoredItemEvent_def Let_def createMonitoredItemEvent_request_filter)
qed

end
